theory Spec2Isabelle
  imports Complex_Main
begin

section \<open>Values\<close>

text \<open>
  The numbers of the engine are JavaScript Numbers. Finite numbers are modelled as
  mathematical reals (\<open>Num\<close>): rounding and overflow of the double format are
  abstracted away in the engine model, and \<open>Math.sin\<close> is the real sine. The two
  non-finite results the code can produce without overflow are kept: \<open>NaN\<close>, and
  \<open>Undefined\<close> for a read of a missing array element or cache key. The rounding of
  the normalisation formula is treated on its own in the last section.
\<close>

datatype jsval = Num real | NaN | Undefined

text \<open>Arithmetic on Numbers: \<open>undefined\<close> converts to \<open>NaN\<close>, and \<open>NaN\<close> is absorbing.\<close>

fun js_add :: "jsval \<Rightarrow> jsval \<Rightarrow> jsval" where
  "js_add (Num a) (Num b) = Num (a + b)"
| "js_add _ _ = NaN"

fun js_sub :: "jsval \<Rightarrow> jsval \<Rightarrow> jsval" where
  "js_sub (Num a) (Num b) = Num (a - b)"
| "js_sub _ _ = NaN"

fun js_mul :: "jsval \<Rightarrow> jsval \<Rightarrow> jsval" where
  "js_mul (Num a) (Num b) = Num (a * b)"
| "js_mul _ _ = NaN"

text \<open>\<open>xs[i]\<close>: an index past the end of an array reads \<open>undefined\<close>.\<close>

definition js_index :: "jsval list \<Rightarrow> nat \<Rightarrow> jsval" where
  "js_index xs i = (if i < length xs then xs ! i else Undefined)"

text \<open>\<open>throw Error(msg)\<close>.\<close>

datatype error = Error string

text \<open>
  Modelled from the spec: \<open>JDateRepository\<close> belongs to the package
  \<open>@behaver/jdate\<close> and is not part of the sources. The spec describes a time
  reference as exposing a numeric Julian Ephemeris Day value and a numeric Julian
  centuries since J2000 value; the engine reads exactly these two (\<open>JDE\<close>,
  \<open>JDEC\<close>).
\<close>

record jdate =
  JDE :: real
  JDEC :: real

text \<open>One term of a series: amplitude, frequency, phase.\<close>

type_synonym item = "real \<times> real \<times> real"

text \<open>
  The values that reach the two run-time type tests of the engine
  (\<open>instanceof Array\<close>, \<open>instanceof JDateRepository\<close>).
\<close>

datatype jsany =
    JDateRepository jdate
  | Array "item list list"
  | Object "(string \<times> jsval) list"
  | Prim jsval
  | Null

fun instanceof_Array :: "jsany \<Rightarrow> bool" where
  "instanceof_Array (Array _) = True"
| "instanceof_Array _ = False"

fun instanceof_JDateRepository :: "jsany \<Rightarrow> bool" where
  "instanceof_JDateRepository (JDateRepository _) = True"
| "instanceof_JDateRepository _ = False"

section \<open>The cache collaborator\<close>

text \<open>
  Modelled from the spec: \<open>CacheSpaceOnJDate\<close> belongs to the package
  \<open>@behaver/jdate\<close> and is not part of the sources. The spec describes it as the
  generic cache container that associates computed quantities with a specific time
  reference and invalidates when that reference changes: a key-value store bound to a
  time reference, where binding a new reference (\<open>on\<close>) empties the store.
\<close>

record cache_space =
  jdr :: jdate
  store :: "string \<rightharpoonup> jsval"

definition cache_new :: "jdate \<Rightarrow> cache_space" where
  "cache_new j = \<lparr>jdr = j, store = Map.empty\<rparr>"

definition cache_has :: "cache_space \<Rightarrow> string \<Rightarrow> bool" where
  "cache_has c k = (store c k \<noteq> None)"

definition cache_set :: "cache_space \<Rightarrow> string \<Rightarrow> jsval \<Rightarrow> cache_space" where
  "cache_set c k v = c\<lparr>store := (store c)(k \<mapsto> v)\<rparr>"

definition cache_get :: "cache_space \<Rightarrow> string \<Rightarrow> jsval" where
  "cache_get c k = (case store c k of Some v \<Rightarrow> v | None \<Rightarrow> Undefined)"

definition cache_on :: "cache_space \<Rightarrow> jdate \<Rightarrow> cache_space" where
  "cache_on c j = c\<lparr>jdr := j, store := Map.empty\<rparr>"

section \<open>The engine\<close>

text \<open>
  The state of a \<open>Pluto99HECC\<close> object: \<open>this.private.jdate\<close> and \<open>this.cache\<close>.
  The field \<open>calc_calls\<close> is instrumentation: it counts the invocations of
  \<open>this.private.calc\<close>, so that recomputation is observable.
\<close>

record engine =
  private_jdate :: jdate
  cache :: cache_space
  calc_calls :: nat

text \<open>The coefficient tables \<open>./data/x\<close>, \<open>./data/y\<close>, \<open>./data/z\<close> are parameters.\<close>

record tables =
  DataX :: "item list list"
  DataY :: "item list list"
  DataZ :: "item list list"

text \<open>
  Modelled from the spec: \<open>RectangularCoordinate3D\<close> belongs to the package
  \<open>@behaver/coordinate\<close> and is not part of the sources. The spec describes it as
  the value type used purely as a return container for the three coordinates, built
  without further validation. \<open>rect3d\<close> is the content of one such container.
\<close>

record rect3d =
  rc_x :: jsval
  rc_y :: jsval
  rc_z :: jsval

text \<open>
  The constructor, for the documented parameter type (a \<open>JDateRepository\<close>): it stores
  the time reference and creates the cache on it.
\<close>

definition constructor :: "jdate \<Rightarrow> engine" where
  "constructor jdate = \<lparr>private_jdate = jdate, cache = cache_new jdate, calc_calls = 0\<rparr>"

text \<open>\<open>this.private.X\<close>\<close>

definition private_X :: "engine \<Rightarrow> jsval \<times> engine" where
  "private_X self =
     (let self1 =
        (if \<not> cache_has (cache self) ''X'' then
           (let X = Num (- 1 + 2 * (JDE (private_jdate self) - 626150.5) / 2185000)
            in self\<lparr>cache := cache_set (cache self) ''X'' X\<rparr>)
         else self)
      in (cache_get (cache self1) ''X'', self1))"

text \<open>The inner loop of \<open>calc\<close> over the items of one table, \<open>table_r\<close> accumulating.\<close>

fun table_loop :: "real \<Rightarrow> item list \<Rightarrow> real \<Rightarrow> real" where
  "table_loop t [] table_r = table_r"
| "table_loop t ((a, f, p) # items) table_r =
     table_loop t items (table_r + a * sin (f * t + p))"

text \<open>The outer loop of \<open>calc\<close> over the tables from index \<open>i\<close> on, \<open>serie_r\<close> accumulating.\<close>

fun serie_loop :: "real \<Rightarrow> jsval list \<Rightarrow> nat \<Rightarrow> item list list \<Rightarrow> jsval \<Rightarrow> jsval" where
  "serie_loop t XMap i [] serie_r = serie_r"
| "serie_loop t XMap i (tab # tabs) serie_r =
     serie_loop t XMap (Suc i) tabs
       (js_add serie_r (js_mul (Num (table_loop t tab 0)) (js_index XMap i)))"

text \<open>\<open>this.private.calc\<close>\<close>

definition calc :: "jsany \<Rightarrow> engine \<Rightarrow> (error + jsval) \<times> engine" where
  "calc serie self =
     (let self0 = self\<lparr>calc_calls := Suc (calc_calls self)\<rparr> in
      if \<not> instanceof_Array serie then
        (Inl (Error ''The param serie should be an Array.''), self0)
      else
        (case serie of
           Array tabs \<Rightarrow>
             (let t = JDEC (private_jdate self0);
                  (X, self1) = private_X self0;
                  XMap = [Num 1, X, js_mul X X]
              in (Inr (serie_loop t XMap 0 tabs (Num 0)), self1))
         | _ \<Rightarrow> (Inl (Error ''The param serie should be an Array.''), self0)))"

text \<open>The accessors \<open>x\<close>, \<open>y\<close>, \<open>z\<close>.\<close>

definition get_x :: "tables \<Rightarrow> engine \<Rightarrow> (error + jsval) \<times> engine" where
  "get_x T self =
     (if \<not> cache_has (cache self) ''x'' then
        (case calc (Array (DataX T)) self of
           (Inl e, self1) \<Rightarrow> (Inl e, self1)
         | (Inr c, self1) \<Rightarrow>
             (let (X, self2) = private_X self1;
                  x = js_add (js_add c (Num 9.922274)) (js_mul (Num 0.154154) X);
                  self3 = self2\<lparr>cache := cache_set (cache self2) ''x'' x\<rparr>
              in (Inr (cache_get (cache self3) ''x''), self3)))
      else (Inr (cache_get (cache self) ''x''), self))"

definition get_y :: "tables \<Rightarrow> engine \<Rightarrow> (error + jsval) \<times> engine" where
  "get_y T self =
     (if \<not> cache_has (cache self) ''y'' then
        (case calc (Array (DataY T)) self of
           (Inl e, self1) \<Rightarrow> (Inl e, self1)
         | (Inr c, self1) \<Rightarrow>
             (let (X, self2) = private_X self1;
                  y = js_add (js_add c (Num 10.016090)) (js_mul (Num 0.064073) X);
                  self3 = self2\<lparr>cache := cache_set (cache self2) ''y'' y\<rparr>
              in (Inr (cache_get (cache self3) ''y''), self3)))
      else (Inr (cache_get (cache self) ''y''), self))"

definition get_z :: "tables \<Rightarrow> engine \<Rightarrow> (error + jsval) \<times> engine" where
  "get_z T self =
     (if \<not> cache_has (cache self) ''z'' then
        (case calc (Array (DataZ T)) self of
           (Inl e, self1) \<Rightarrow> (Inl e, self1)
         | (Inr c, self1) \<Rightarrow>
             (let (X, self2) = private_X self1;
                  z = js_sub (js_sub c (Num 3.947474)) (js_mul (Num 0.042746) X);
                  self3 = self2\<lparr>cache := cache_set (cache self2) ''z'' z\<rparr>
              in (Inr (cache_get (cache self3) ''z''), self3)))
      else (Inr (cache_get (cache self) ''z''), self))"

text \<open>The accessor \<open>rc\<close>: the three axis reads in argument order, then the container.\<close>

definition get_rc :: "tables \<Rightarrow> engine \<Rightarrow> (error + rect3d) \<times> engine" where
  "get_rc T self =
     (case get_x T self of
        (Inl e, s1) \<Rightarrow> (Inl e, s1)
      | (Inr x, s1) \<Rightarrow>
          (case get_y T s1 of
             (Inl e, s2) \<Rightarrow> (Inl e, s2)
           | (Inr y, s2) \<Rightarrow>
               (case get_z T s2 of
                  (Inl e, s3) \<Rightarrow> (Inl e, s3)
                | (Inr z, s3) \<Rightarrow> (Inr \<lparr>rc_x = x, rc_y = y, rc_z = z\<rparr>, s3))))"

text \<open>The setter and the getter of \<open>obTime\<close>.\<close>

definition set_obTime :: "jsany \<Rightarrow> engine \<Rightarrow> (error + unit) \<times> engine" where
  "set_obTime v self =
     (if \<not> instanceof_JDateRepository v then
        (Inl (Error ''The param jdr should be a instance of JDateRepository.''), self)
      else
        (case v of
           JDateRepository j \<Rightarrow>
             (let self1 = self\<lparr>cache := cache_on (cache self) j\<rparr>;
                  self2 = self1\<lparr>private_jdate := j\<rparr>
              in (Inr (), self2))
         | _ \<Rightarrow>
             (Inl (Error ''The param jdr should be a instance of JDateRepository.''), self)))"

definition get_obTime :: "engine \<Rightarrow> jdate" where
  "get_obTime self = private_jdate self"

section \<open>Reads through the public interface\<close>

text \<open>
  The axis accessors differ only in the cache key, the table and the final correction.
  \<open>axis_get\<close> is their common shape; it is used to reason about the three of them at
  once (see \<open>get_x_axis_get\<close> and its siblings).
\<close>

definition axis_get ::
  "string \<Rightarrow> item list list \<Rightarrow> (jsval \<Rightarrow> jsval \<Rightarrow> jsval) \<Rightarrow> engine \<Rightarrow> (error + jsval) \<times> engine" where
  "axis_get k tabs fin self =
     (if \<not> cache_has (cache self) k then
        (case calc (Array tabs) self of
           (Inl e, self1) \<Rightarrow> (Inl e, self1)
         | (Inr c, self1) \<Rightarrow>
             (let (X, self2) = private_X self1;
                  v = fin c X;
                  self3 = self2\<lparr>cache := cache_set (cache self2) k v\<rparr>
              in (Inr (cache_get (cache self3) k), self3)))
      else (Inr (cache_get (cache self) k), self))"

text \<open>One read of a memoized scalar, and the state after a sequence of such reads.\<close>

datatype reader = Read_X | Read_x | Read_y | Read_z

fun read :: "tables \<Rightarrow> reader \<Rightarrow> engine \<Rightarrow> (error + jsval) \<times> engine" where
  "read T Read_X s = (let (X, s1) = private_X s in (Inr X, s1))"
| "read T Read_x s = get_x T s"
| "read T Read_y s = get_y T s"
| "read T Read_z s = get_z T s"

fun reads :: "tables \<Rightarrow> reader list \<Rightarrow> engine \<Rightarrow> engine" where
  "reads T [] s = s"
| "reads T (r # rs) s = reads T rs (snd (read T r s))"

text \<open>The number of axes whose value is not in the cache.\<close>

definition missing :: "engine \<Rightarrow> nat" where
  "missing s = length (filter (\<lambda>k. \<not> cache_has (cache s) k) [''x'', ''y'', ''z''])"

section \<open>The operations as the spec words them\<close>

text \<open>\<open>normalize(JDE) -> X\<close>\<close>

definition normalize_time :: "real \<Rightarrow> real" where
  "normalize_time jde = - 1 + 2 * (jde - 626150.5) / 2185000"

text \<open>The partial sum \<open>S_i\<close> of one degree-table at time \<open>t\<close>.\<close>

definition partial_sum :: "real \<Rightarrow> item list \<Rightarrow> real" where
  "partial_sum t tab = (\<Sum>(a, f, p) \<leftarrow> tab. a * sin (f * t + p))"

text \<open>\<open>evaluate(table, X, t) -> value\<close>, for a table of three degree-tables.\<close>

definition evaluate :: "item list list \<Rightarrow> real \<Rightarrow> real \<Rightarrow> real" where
  "evaluate table X t =
     partial_sum t (table ! 0) * 1 + partial_sum t (table ! 1) * X + partial_sum t (table ! 2) * X ^ 2"

text \<open>\<open>axisValue(seriesResult, offset, slope, X) -> coordinate\<close>\<close>

definition axisValue :: "jsval \<Rightarrow> real \<Rightarrow> real \<Rightarrow> real \<Rightarrow> jsval" where
  "axisValue seriesResult offset slope X =
     js_add (js_add seriesResult (Num offset)) (js_mul (Num slope) (Num X))"

section \<open>Values under an epoch and cache consistency\<close>

text \<open>
  What the evaluator computes for a table under the epoch \<open>j\<close>, as a function of the
  epoch alone: the outer loop of \<open>calc\<close> run with the weights of that epoch.
\<close>

definition serie_value :: "jdate \<Rightarrow> item list list \<Rightarrow> jsval" where
  "serie_value j tabs =
     (let X = normalize_time (JDE j)
      in serie_loop (JDEC j) [Num 1, Num X, Num (X * X)] 0 tabs (Num 0))"

definition epoch_x :: "tables \<Rightarrow> jdate \<Rightarrow> jsval" where
  "epoch_x T j = axisValue (serie_value j (DataX T)) 9.922274 0.154154 (normalize_time (JDE j))"

definition epoch_y :: "tables \<Rightarrow> jdate \<Rightarrow> jsval" where
  "epoch_y T j = axisValue (serie_value j (DataY T)) 10.016090 0.064073 (normalize_time (JDE j))"

definition epoch_z :: "tables \<Rightarrow> jdate \<Rightarrow> jsval" where
  "epoch_z T j =
     axisValue (serie_value j (DataZ T)) (- 3.947474) (- 0.042746) (normalize_time (JDE j))"

fun epoch_value :: "tables \<Rightarrow> jdate \<Rightarrow> reader \<Rightarrow> jsval" where
  "epoch_value T j Read_X = Num (normalize_time (JDE j))"
| "epoch_value T j Read_x = epoch_x T j"
| "epoch_value T j Read_y = epoch_y T j"
| "epoch_value T j Read_z = epoch_z T j"

text \<open>A cache entry is either absent or holds the expected value.\<close>

definition cached_ok :: "engine \<Rightarrow> string \<Rightarrow> jsval \<Rightarrow> bool" where
  "cached_ok s k E = (store (cache s) k = None \<or> store (cache s) k = Some E)"

definition X_consistent :: "engine \<Rightarrow> bool" where
  "X_consistent s = cached_ok s ''X'' (Num (normalize_time (JDE (private_jdate s))))"

text \<open>Every memoized scalar is the value under the current epoch.\<close>

definition consistent :: "tables \<Rightarrow> engine \<Rightarrow> bool" where
  "consistent T s =
     (X_consistent s \<and>
      cached_ok s ''x'' (epoch_x T (private_jdate s)) \<and>
      cached_ok s ''y'' (epoch_y T (private_jdate s)) \<and>
      cached_ok s ''z'' (epoch_z T (private_jdate s)))"

text \<open>The states an engine can be in: constructed, then read and re-epoched at will.\<close>

inductive reachable :: "tables \<Rightarrow> engine \<Rightarrow> bool" for T :: tables where
  created: "reachable T (constructor j)"
| after_read: "reachable T s \<Longrightarrow> reachable T (snd (read T r s))"
| after_rc: "reachable T s \<Longrightarrow> reachable T (snd (get_rc T s))"
| after_set: "reachable T s \<Longrightarrow> reachable T (snd (set_obTime v s))"

section \<open>The time-reference contract as the spec words it\<close>

text \<open>\<open>o[name]\<close> on a plain object: a missing property reads \<open>undefined\<close>.\<close>

definition js_property :: "(string \<times> jsval) list \<Rightarrow> string \<Rightarrow> jsval" where
  "js_property props name = (case map_of props name of Some v \<Rightarrow> v | None \<Rightarrow> Undefined)"

fun is_numeric :: "jsval \<Rightarrow> bool" where
  "is_numeric (Num _) = True"
| "is_numeric _ = False"

text \<open>
  The capability contract of the spec: the value exposes a numeric Julian Ephemeris
  Day (\<open>JDE\<close>) and a numeric Julian centuries since J2000 (\<open>JDEC\<close>). It says nothing
  about the class of the value.
\<close>

fun exposes_time_reference :: "jsany \<Rightarrow> bool" where
  "exposes_time_reference (JDateRepository j) = True"
| "exposes_time_reference (Object props) =
     (is_numeric (js_property props ''JDE'') \<and> is_numeric (js_property props ''JDEC''))"
| "exposes_time_reference _ = False"

section \<open>Containers as objects\<close>







section \<open>The normalisation in double precision\<close>

text \<open>
  Rounding of a real to the binary64 format, to nearest with ties to even: 53
  significant bits, the least exponent of the last bit being \<open>-1074\<close>. Overflow to
  infinity is not modelled, so \<open>fl\<close> is the rounding of the format for magnitudes
  below \<open>2 ^ 1024\<close>.
\<close>

definition rne :: "real \<Rightarrow> int" where
  "rne x =
     (let f = \<lfloor>x\<rfloor>; d = x - of_int f
      in if d < 1 / 2 then f else if 1 / 2 < d then f + 1 else if even f then f else f + 1)"

definition quantum_exp :: "real \<Rightarrow> int" where
  "quantum_exp x = max (\<lfloor>log 2 \<bar>x\<bar>\<rfloor> - 52) (- 1074)"

definition fl :: "real \<Rightarrow> real" where
  "fl x =
     (if x = 0 then 0
      else of_int (rne (x / 2 powr of_int (quantum_exp x))) * 2 powr of_int (quantum_exp x))"

text \<open>
  The expression of \<open>this.private.X\<close>, \<open>-1 + 2 * (JDE - 626150.5) / 2185000\<close>, with
  every operation rounded, in the order JavaScript evaluates it.
\<close>

definition X_double :: "real \<Rightarrow> real" where
  "X_double jde = fl (- 1 + fl (fl (2 * fl (jde - 626150.5)) / 2185000))"


section \<open>Properties of the evaluator and of the memoized reads\<close>

subsection \<open>The loops and \<open>this.private.X\<close>\<close>

text \<open>The inner loop adds the partial sum of its table to the accumulator.\<close>

lemma table_loop_sum: "table_loop t items acc = acc + partial_sum t items"
  by (induction items arbitrary: acc) (auto simp: partial_sum_def)

lemma private_X_fst:
  "X_consistent s \<Longrightarrow> fst (private_X s) = Num (normalize_time (JDE (private_jdate s)))"
  by (auto simp: private_X_def X_consistent_def cached_ok_def normalize_time_def cache_has_def
      cache_get_def cache_set_def Let_def)

lemma private_X_jdate [simp]: "private_jdate (snd (private_X s)) = private_jdate s"
  and private_X_calls [simp]: "calc_calls (snd (private_X s)) = calc_calls s"
  by (auto simp: private_X_def Let_def)

lemma private_X_store:
  "store (cache (snd (private_X s))) k =
     (if k = ''X'' \<and> store (cache s) ''X'' = None
      then Some (Num (normalize_time (JDE (private_jdate s)))) else store (cache s) k)"
  by (auto simp: private_X_def Let_def cache_has_def cache_set_def normalize_time_def)

lemma serie_loop_NaN [simp]: "serie_loop t XMap i tabs NaN = NaN"
  by (induction tabs arbitrary: i) auto

lemma js_add_NaN [simp]: "js_add a NaN = NaN"
  by (cases a) auto

lemma js_mul_Undefined [simp]: "js_mul a Undefined = NaN"
  by (cases a) auto

text \<open>Once the index has left the weight list, the outer loop ends in \<open>NaN\<close>.\<close>

lemma serie_loop_overrun:
  "tabs \<noteq> [] \<Longrightarrow> length XMap < i + length tabs \<Longrightarrow> serie_loop t XMap i tabs serie_r = NaN"
proof (induction tabs arbitrary: i serie_r)
  case Nil
  then show ?case by simp
next
  case (Cons tab tabs)
  show ?case
  proof (cases "i < length XMap")
    case True
    with Cons.prems have "tabs \<noteq> []" "length XMap < Suc i + length tabs" by auto
    then show ?thesis by (simp add: Cons.IH)
  next
    case False
    then show ?thesis by (simp add: js_index_def)
  qed
qed

subsection \<open>\<open>this.private.calc\<close> on an Array\<close>

lemma calc_Array_fst:
  "X_consistent s \<Longrightarrow> fst (calc (Array tabs) s) = Inr (serie_value (private_jdate s) tabs)"
proof -
  assume c: "X_consistent s"
  let ?s0 = "s\<lparr>calc_calls := Suc (calc_calls s)\<rparr>"
  have "X_consistent ?s0" using c by (simp add: X_consistent_def cached_ok_def)
  then have "fst (private_X ?s0) = Num (normalize_time (JDE (private_jdate s)))"
    using private_X_fst [of ?s0] by simp
  then show ?thesis
    by (simp add: calc_def serie_value_def Let_def split_beta)
qed

lemma calc_Array_snd:
  "snd (calc (Array tabs) s) = snd (private_X (s\<lparr>calc_calls := Suc (calc_calls s)\<rparr>))"
  by (simp add: calc_def Let_def split_beta)

lemma calc_Array_Inr: "\<exists>c. fst (calc (Array tabs) s) = Inr c"
  by (simp add: calc_def Let_def split_beta)

lemma calc_not_Array:
  "\<not> instanceof_Array v \<Longrightarrow>
   calc v s = (Inl (Error ''The param serie should be an Array.''), s\<lparr>calc_calls := Suc (calc_calls s)\<rparr>)"
  by (simp add: calc_def Let_def)

lemma X_consistent_private_X: "X_consistent s \<Longrightarrow> X_consistent (snd (private_X s))"
  by (auto simp: X_consistent_def cached_ok_def private_X_store)

lemma axisValue_sub:
  "js_sub (js_sub c (Num a)) (js_mul (Num b) (Num X)) = axisValue c (- a) (- b) X"
  by (cases c) (simp_all add: axisValue_def)

lemma calc_Array_X_consistent: "X_consistent s \<Longrightarrow> X_consistent (snd (calc (Array tabs) s))"
proof -
  assume c: "X_consistent s"
  have "X_consistent (s\<lparr>calc_calls := Suc (calc_calls s)\<rparr>)"
    using c by (simp add: X_consistent_def cached_ok_def)
  then show ?thesis by (simp add: calc_Array_snd X_consistent_private_X)
qed

lemma calc_Array_jdate [simp]: "private_jdate (snd (calc (Array tabs) s)) = private_jdate s"
  by (simp add: calc_Array_snd)

lemma calc_Array_calls [simp]: "calc_calls (snd (calc (Array tabs) s)) = Suc (calc_calls s)"
  by (simp add: calc_Array_snd)

lemma calc_Array_store:
  "store (cache (snd (calc (Array tabs) s))) k =
     (if k = ''X'' \<and> store (cache s) ''X'' = None
      then Some (Num (normalize_time (JDE (private_jdate s)))) else store (cache s) k)"
  by (simp add: calc_Array_snd private_X_store)

subsection \<open>The common shape of the axis accessors\<close>

lemma get_x_axis_get:
  "get_x T = axis_get ''x'' (DataX T) (\<lambda>c X. js_add (js_add c (Num 9.922274)) (js_mul (Num 0.154154) X))"
  by (rule ext) (simp only: get_x_def axis_get_def)

lemma get_y_axis_get:
  "get_y T = axis_get ''y'' (DataY T) (\<lambda>c X. js_add (js_add c (Num 10.016090)) (js_mul (Num 0.064073) X))"
  by (rule ext) (simp only: get_y_def axis_get_def)

lemma get_z_axis_get:
  "get_z T = axis_get ''z'' (DataZ T) (\<lambda>c X. js_sub (js_sub c (Num 3.947474)) (js_mul (Num 0.042746) X))"
  by (rule ext) (simp only: get_z_def axis_get_def)

lemma axis_get_hit:
  "store (cache s) k = Some v \<Longrightarrow> axis_get k tabs fin s = (Inr v, s)"
  by (simp add: axis_get_def cache_has_def cache_get_def)

lemma axis_get_miss:
  assumes "store (cache s) k = None"
  shows "axis_get k tabs fin s =
    (let r = calc (Array tabs) s; p = private_X (snd r); v = fin (projr (fst r)) (fst p)
     in (Inr v, (snd p)\<lparr>cache := cache_set (cache (snd p)) k v\<rparr>))"
proof -
  obtain c where c: "fst (calc (Array tabs) s) = Inr c"
    using calc_Array_Inr by blast
  show ?thesis using assms
    by (simp add: axis_get_def cache_has_def cache_get_def cache_set_def Let_def split_beta c)
qed

lemma axis_get_stored:
  "store (cache (snd (axis_get k tabs fin s))) k = Some v \<longleftrightarrow> fst (axis_get k tabs fin s) = Inr v"
proof (cases "store (cache s) k")
  case None
  then show ?thesis by (simp add: axis_get_miss Let_def cache_set_def)
next
  case (Some w)
  then show ?thesis by (simp add: axis_get_hit)
qed

lemma axis_get_Inr: "\<exists>v. fst (axis_get k tabs fin s) = Inr v"
proof (cases "store (cache s) k")
  case None
  then show ?thesis by (simp add: axis_get_miss Let_def)
next
  case (Some w)
  then show ?thesis by (simp add: axis_get_hit)
qed

lemma axis_get_twice:
  "axis_get k tabs fin (snd (axis_get k tabs fin s)) = axis_get k tabs fin s"
proof -
  obtain v where v: "fst (axis_get k tabs fin s) = Inr v"
    using axis_get_Inr by blast
  then have "store (cache (snd (axis_get k tabs fin s))) k = Some v"
    by (simp add: axis_get_stored)
  then have "axis_get k tabs fin (snd (axis_get k tabs fin s)) =
      (Inr v, snd (axis_get k tabs fin s))"
    by (rule axis_get_hit)
  with v show ?thesis by (metis prod.collapse)
qed

lemma axis_get_jdate [simp]: "private_jdate (snd (axis_get k tabs fin s)) = private_jdate s"
  by (cases "store (cache s) k") (simp_all add: axis_get_miss axis_get_hit Let_def)

lemma axis_get_calls:
  "calc_calls (snd (axis_get k tabs fin s)) =
     (if store (cache s) k = None then Suc (calc_calls s) else calc_calls s)"
  by (cases "store (cache s) k") (simp_all add: axis_get_miss axis_get_hit Let_def)

lemma axis_get_store:
  "k \<noteq> ''X'' \<Longrightarrow> k' \<noteq> ''X'' \<Longrightarrow> k' \<noteq> k \<Longrightarrow>
   store (cache (snd (axis_get k tabs fin s))) k' = store (cache s) k'"
  by (cases "store (cache s) k")
    (simp_all add: axis_get_miss axis_get_hit Let_def cache_set_def private_X_store calc_Array_store)

lemma axis_get_store_X:
  "k \<noteq> ''X'' \<Longrightarrow> X_consistent s \<Longrightarrow> X_consistent (snd (axis_get k tabs fin s))"
  by (cases "store (cache s) k")
    (auto simp: axis_get_miss axis_get_hit Let_def cache_set_def private_X_store calc_Array_store
       X_consistent_def cached_ok_def)

lemma axis_get_value:
  assumes "X_consistent s" and "store (cache s) k = None"
  shows "fst (axis_get k tabs fin s) =
    Inr (fin (serie_value (private_jdate s) tabs) (Num (normalize_time (JDE (private_jdate s)))))"
proof -
  have 1: "fst (calc (Array tabs) s) = Inr (serie_value (private_jdate s) tabs)"
    using assms(1) by (rule calc_Array_fst)
  have "X_consistent (snd (calc (Array tabs) s))"
    using assms(1) by (rule calc_Array_X_consistent)
  then have 2: "fst (private_X (snd (calc (Array tabs) s))) =
      Num (normalize_time (JDE (private_jdate s)))"
    using private_X_fst [of "snd (calc (Array tabs) s)"] by simp
  show ?thesis by (simp add: axis_get_miss [OF assms(2)] Let_def 1 2)
qed

subsection \<open>Reads return the values of the epoch and keep the cache consistent\<close>

lemma axis_get_epoch:
  assumes "X_consistent s"
    and "cached_ok s k E"
    and "fin (serie_value (private_jdate s) tabs) (Num (normalize_time (JDE (private_jdate s)))) = E"
  shows "fst (axis_get k tabs fin s) = Inr E"
proof (cases "store (cache s) k")
  case None
  then show ?thesis using assms(1,3) by (simp add: axis_get_value)
next
  case (Some v)
  then show ?thesis using assms(2) by (simp add: axis_get_hit cached_ok_def)
qed

lemma get_x_value: "consistent T s \<Longrightarrow> fst (get_x T s) = Inr (epoch_x T (private_jdate s))"
  unfolding get_x_axis_get
  by (rule axis_get_epoch) (simp_all add: consistent_def epoch_x_def axisValue_def)

lemma get_y_value: "consistent T s \<Longrightarrow> fst (get_y T s) = Inr (epoch_y T (private_jdate s))"
  unfolding get_y_axis_get
  by (rule axis_get_epoch) (simp_all add: consistent_def epoch_y_def axisValue_def)

lemma get_z_value: "consistent T s \<Longrightarrow> fst (get_z T s) = Inr (epoch_z T (private_jdate s))"
  unfolding get_z_axis_get
  by (rule axis_get_epoch) (simp_all only: consistent_def epoch_z_def axisValue_sub axis_get_jdate)

lemma get_x_consistent: "consistent T s \<Longrightarrow> consistent T (snd (get_x T s))"
proof -
  assume c: "consistent T s"
  have v: "store (cache (snd (get_x T s))) ''x'' = Some (epoch_x T (private_jdate s))"
    using get_x_value [OF c] by (simp add: get_x_axis_get axis_get_stored)
  show ?thesis using c v
    by (simp add: consistent_def cached_ok_def get_x_axis_get axis_get_store axis_get_store_X)
qed

lemma get_y_consistent: "consistent T s \<Longrightarrow> consistent T (snd (get_y T s))"
proof -
  assume c: "consistent T s"
  have v: "store (cache (snd (get_y T s))) ''y'' = Some (epoch_y T (private_jdate s))"
    using get_y_value [OF c] by (simp add: get_y_axis_get axis_get_stored)
  show ?thesis using c v
    by (simp add: consistent_def cached_ok_def get_y_axis_get axis_get_store axis_get_store_X)
qed

lemma get_z_consistent: "consistent T s \<Longrightarrow> consistent T (snd (get_z T s))"
proof -
  assume c: "consistent T s"
  have v: "store (cache (snd (get_z T s))) ''z'' = Some (epoch_z T (private_jdate s))"
    using get_z_value [OF c] by (simp add: get_z_axis_get axis_get_stored)
  show ?thesis using c v
    by (simp add: consistent_def cached_ok_def get_z_axis_get axis_get_store axis_get_store_X)
qed

lemma private_X_consistent: "consistent T s \<Longrightarrow> consistent T (snd (private_X s))"
  by (auto simp: consistent_def cached_ok_def X_consistent_private_X private_X_store)

lemma read_value: "consistent T s \<Longrightarrow> fst (read T r s) = Inr (epoch_value T (private_jdate s) r)"
  by (cases r) (simp_all add: get_x_value get_y_value get_z_value split_beta private_X_fst consistent_def)

lemma read_consistent: "consistent T s \<Longrightarrow> consistent T (snd (read T r s))"
  by (cases r) (simp_all add: get_x_consistent get_y_consistent get_z_consistent split_beta private_X_consistent)

lemma read_jdate [simp]: "private_jdate (snd (read T r s)) = private_jdate s"
  by (cases r) (simp_all add: get_x_axis_get get_y_axis_get get_z_axis_get split_beta)

lemma reads_consistent: "consistent T s \<Longrightarrow> consistent T (reads T rs s)"
  by (induction rs arbitrary: s) (simp_all add: read_consistent)

lemma reads_jdate [simp]: "private_jdate (reads T rs s) = private_jdate s"
  by (induction rs arbitrary: s) simp_all

lemma consistent_empty: "store (cache s) = Map.empty \<Longrightarrow> consistent T s"
  by (simp add: consistent_def X_consistent_def cached_ok_def)

lemma constructor_consistent: "consistent T (constructor j)"
  by (rule consistent_empty) (simp add: constructor_def cache_new_def)

subsection \<open>Repeated reads and the number of evaluator calls\<close>

lemma read_twice: "read T r (snd (read T r s)) = (fst (read T r s), snd (read T r s))"
proof (cases r)
  case Read_X
  then show ?thesis
    by (auto simp: split_beta private_X_def Let_def cache_has_def cache_get_def cache_set_def)
qed (simp_all add: get_x_axis_get get_y_axis_get get_z_axis_get axis_get_twice)

lemma axis_get_has: "cache_has (cache (snd (axis_get k tabs fin s))) k"
  using axis_get_Inr [of k tabs fin s] axis_get_stored [of k tabs fin s]
  by (auto simp: cache_has_def)

lemma axis_get_has_other:
  "k \<noteq> ''X'' \<Longrightarrow> k' \<noteq> ''X'' \<Longrightarrow> k' \<noteq> k \<Longrightarrow>
   cache_has (cache (snd (axis_get k tabs fin s))) k' = cache_has (cache s) k'"
  by (simp add: cache_has_def axis_get_store)

lemma axis_get_calls_has:
  "calc_calls (snd (axis_get k tabs fin s)) =
     (if cache_has (cache s) k then calc_calls s else Suc (calc_calls s))"
  by (simp add: axis_get_calls cache_has_def)

lemma private_X_has: "k \<noteq> ''X'' \<Longrightarrow> cache_has (cache (snd (private_X s))) k = cache_has (cache s) k"
  by (simp add: cache_has_def private_X_store)

lemma read_budget: "calc_calls (snd (read T r s)) + missing (snd (read T r s)) = calc_calls s + missing s"
proof (cases r)
  case Read_X
  then show ?thesis
    by (simp add: split_beta missing_def private_X_has)
next
  case Read_x
  then show ?thesis
    by (simp add: missing_def get_x_axis_get axis_get_has axis_get_has_other axis_get_calls_has)
next
  case Read_y
  then show ?thesis
    by (simp add: missing_def get_y_axis_get axis_get_has axis_get_has_other axis_get_calls_has)
next
  case Read_z
  then show ?thesis
    by (simp add: missing_def get_z_axis_get axis_get_has axis_get_has_other axis_get_calls_has)
qed

lemma reads_budget: "calc_calls (reads T rs s) + missing (reads T rs s) = calc_calls s + missing s"
  by (induction rs arbitrary: s) (simp_all add: read_budget)

subsection \<open>Rounding is the identity on doubles\<close>

lemma rne_of_int [simp]: "rne (of_int n) = n"
  by (simp add: rne_def)

lemma fl_exact:
  assumes x: "x = of_int m * 2 powr of_int k" and m: "\<bar>m\<bar> < 2 ^ 53" and k: "- 1074 \<le> k"
  shows "fl x = x"
proof (cases "x = 0")
  case True
  then show ?thesis by (simp add: fl_def)
next
  case False
  define q where "q = quantum_exp x"
  have "\<bar>x\<bar> = of_int \<bar>m\<bar> * 2 powr of_int k"
    by (simp add: x abs_mult)
  also have "\<dots> < 2 ^ 53 * 2 powr of_int k"
  proof -
    have "(of_int \<bar>m\<bar> :: real) < of_int (2 ^ 53)" using m by (simp only: of_int_less_iff)
    then show ?thesis by simp
  qed
  also have "\<dots> = 2 powr of_int (53 + k)"
    by (simp add: powr_add powr_realpow [symmetric])
  finally have "\<bar>x\<bar> < 2 powr of_int (53 + k)" .
  then have "log 2 \<bar>x\<bar> < of_int (53 + k)"
    using False by (simp add: log_less_iff)
  then have "\<lfloor>log 2 \<bar>x\<bar>\<rfloor> < 53 + k"
    by (simp only: floor_less_iff)
  then have qk: "q \<le> k" using k by (simp add: q_def quantum_exp_def)
  define n where "n = m * 2 ^ nat (k - q)"
  have pw: "(2::real) powr of_int k = 2 ^ nat (k - q) * 2 powr of_int q"
  proof -
    have "(2::real) powr of_int k = 2 powr (of_int (k - q) + of_int q)" by simp
    also have "\<dots> = 2 powr of_int (k - q) * 2 powr of_int q" by (simp only: powr_add)
    finally have 1: "(2::real) powr of_int k = 2 powr of_int (k - q) * 2 powr of_int q" .
    have "real_of_int (k - q) = real (nat (k - q))" using qk by simp
    then have "(2::real) powr of_int (k - q) = 2 powr real (nat (k - q))" by (simp only:)
    also have "\<dots> = 2 ^ nat (k - q)" by (rule powr_realpow) simp
    finally show ?thesis using 1 by (simp only:)
  qed
  have "x = of_int n * 2 powr of_int q"
    by (simp add: x n_def pw)
  then have "x / 2 powr of_int q = of_int n" by simp
  then have "fl x = of_int n * 2 powr of_int q"
    using False by (simp add: fl_def q_def [symmetric])
  then show ?thesis using \<open>x = of_int n * 2 powr of_int q\<close> by simp
qed

lemma fl_int: "\<bar>m\<bar> < 2 ^ 53 \<Longrightarrow> fl (of_int m) = of_int m"
  using fl_exact [of "of_int m" m 0] by simp

lemma X_double_lo: "X_double 626150.5 = - 1"
  using fl_int [of 0] fl_int [of "- 1"] by (simp add: X_double_def)

lemma X_double_hi: "X_double 2811150.5 = 1"
  using fl_int [of 2185000] fl_int [of 4370000] fl_int [of 2] fl_int [of 1] by (simp add: X_double_def)

subsection \<open>The vector, the setter and the reachable states\<close>

lemma get_rc_state: "snd (get_rc T s) = reads T [Read_x, Read_y, Read_z] s"
proof -
  obtain x where x: "fst (get_x T s) = Inr x"
    using axis_get_Inr unfolding get_x_axis_get by blast
  obtain y where y: "fst (get_y T (snd (get_x T s))) = Inr y"
    using axis_get_Inr unfolding get_y_axis_get by blast
  obtain z where z: "fst (get_z T (snd (get_y T (snd (get_x T s))))) = Inr z"
    using axis_get_Inr unfolding get_z_axis_get by blast
  show ?thesis by (simp add: get_rc_def split_beta x y z)
qed


lemma set_obTime_reject:
  "\<not> instanceof_JDateRepository v \<Longrightarrow>
   set_obTime v s = (Inl (Error ''The param jdr should be a instance of JDateRepository.''), s)"
  by (simp add: set_obTime_def)

lemma set_obTime_accept:
  "set_obTime (JDateRepository j) s =
     (Inr (), s\<lparr>cache := cache_on (cache s) j, private_jdate := j\<rparr>)"
  by (simp add: set_obTime_def Let_def)

lemma set_obTime_consistent: "consistent T s \<Longrightarrow> consistent T (snd (set_obTime v s))"
proof (cases v)
  case (JDateRepository j)
  show ?thesis unfolding JDateRepository set_obTime_accept
    by (rule consistent_empty) (simp add: cache_on_def)
qed (simp_all add: set_obTime_reject)

lemma reachable_consistent: "reachable T s \<Longrightarrow> consistent T s"
proof (induction rule: reachable.induct)
  case (created j)
  show ?case by (rule constructor_consistent)
next
  case (after_read s r)
  then show ?case by (simp add: read_consistent)
next
  case (after_rc s)
  then show ?case by (simp only: get_rc_state reads_consistent)
next
  case (after_set s v)
  then show ?case by (simp add: set_obTime_consistent)
qed

subsection \<open>The contract and the containers\<close>

lemma instance_exposes_time_reference:
  "instanceof_JDateRepository v \<Longrightarrow> exposes_time_reference v"
  by (cases v) simp_all





subsection \<open>Three degree-tables\<close>

lemma serie_value_three:
  "serie_value j [T0, T1, T2] = Num (evaluate [T0, T1, T2] (normalize_time (JDE j)) (JDEC j))"
  by (simp add: serie_value_def evaluate_def js_index_def table_loop_sum power2_eq_square Let_def)

lemma axisValue_Num [simp]: "axisValue (Num r) offset slope X = Num (r + offset + slope * X)"
  by (simp add: axisValue_def)

section \<open>The series evaluator\<close>

text \<open>
  C1. For a series table of three degree-tables, the evaluator returns
  \<open>S_0 * 1 + S_1 * X + S_2 * X^2\<close>, where \<open>S_i\<close> is the sum of
  \<open>amplitude * sin (frequency * t + phase)\<close> over the terms of degree-table \<open>i\<close>,
  \<open>t\<close> is the centuries-since-J2000 value and \<open>X\<close> the normalized time parameter of the
  current epoch. The engine is in any state whose memoized \<open>X\<close>, if present, belongs
  to the current epoch, which is the case in every reachable state
  (\<open>reachable_consistent\<close>).
\<close>

theorem calc_evaluates_series:
  assumes "X_consistent self" and "length serie = 3"
  shows "fst (calc (Array serie) self) =
     Inr (Num (evaluate serie (normalize_time (JDE (private_jdate self))) (JDEC (private_jdate self))))"
proof -
  obtain T0 T1 T2 where "serie = [T0, T1, T2]"
    using assms(2) by (auto simp: length_Suc_conv numeral_3_eq_3)
  then show ?thesis using assms(1) by (simp add: calc_Array_fst serie_value_three)
qed

theorem calc_evaluates_series_witness:
  "X_consistent (constructor \<lparr>JDE = 2811150.5, JDEC = 0\<rparr>) \<and>
   length [[(3::real, 0::real, pi / 2)], [(5, 0, pi / 2)], [(7, 0, pi / 2), (1, 0, 0)]] = 3 \<and>
   fst (calc (Array [[(3, 0, pi / 2)], [(5, 0, pi / 2)], [(7, 0, pi / 2), (1, 0, 0)]])
          (constructor \<lparr>JDE = 2811150.5, JDEC = 0\<rparr>)) = Inr (Num 15)"
proof -
  have c: "X_consistent (constructor \<lparr>JDE = 2811150.5, JDEC = 0\<rparr>)"
    by (simp add: X_consistent_def cached_ok_def constructor_def cache_new_def)
  show ?thesis
    using c calc_evaluates_series
      [OF c, of "[[(3, 0, pi / 2)], [(5, 0, pi / 2)], [(7, 0, pi / 2), (1, 0, 0)]]"]
    by (simp add: evaluate_def partial_sum_def normalize_time_def constructor_def)
qed

text \<open>
  C6. For every argument that is not an Array, the evaluator fails with the
  invalid-argument error, and neither the cache nor the time reference of the engine
  has changed when it does: nothing was computed or memoized.
\<close>

theorem calc_rejects_non_Array:
  assumes "\<not> instanceof_Array v"
  shows "fst (calc v self) = Inl (Error ''The param serie should be an Array.'') \<and>
         cache (snd (calc v self)) = cache self \<and>
         private_jdate (snd (calc v self)) = private_jdate self"
  using assms by (simp add: calc_not_Array)

theorem calc_rejects_non_Array_witness:
  "\<not> instanceof_Array (Prim (Num 3)) \<and>
   fst (calc (Prim (Num 3)) (constructor \<lparr>JDE = 2451545, JDEC = 0\<rparr>)) =
     Inl (Error ''The param serie should be an Array.'') \<and>
   store (cache (snd (calc (Prim (Num 3)) (constructor \<lparr>JDE = 2451545, JDEC = 0\<rparr>)))) ''X'' = None"
  using calc_rejects_non_Array [of "Prim (Num 3)" "constructor \<lparr>JDE = 2451545, JDEC = 0\<rparr>"]
  by (simp add: constructor_def cache_new_def)

text \<open>
  C10. The weight list of the evaluator is \<open>[1, X, X * X]\<close>. For an Array of more than
  three degree-tables, every table from index 3 on (empty or not) is multiplied by a
  missing weight, and the evaluator returns \<open>NaN\<close>: it neither raises an error nor
  ignores the extra tables.
\<close>

theorem calc_extra_tables_NaN:
  assumes "3 < length serie"
  shows "fst (calc (Array serie) self) = Inr NaN"
proof -
  have "serie \<noteq> []" using assms by auto
  then have "serie_loop t [Num 1, X, js_mul X X] 0 serie (Num 0) = NaN" for t X
    using assms by (simp add: serie_loop_overrun)
  then show ?thesis by (simp add: calc_def Let_def split_beta)
qed

theorem calc_extra_tables_NaN_witness:
  "3 < length [[], [], [], [(1::real, 0::real, 0::real)]] \<and>
   fst (calc (Array [[], [], [], [(1, 0, 0)]]) (constructor \<lparr>JDE = 2451545, JDEC = 0\<rparr>)) = Inr NaN"
  using calc_extra_tables_NaN
    [of "[[], [], [], [(1, 0, 0)]]" "constructor \<lparr>JDE = 2451545, JDEC = 0\<rparr>"]
  by simp

section \<open>The axis accessors\<close>

text \<open>
  C2. In a state whose cache is consistent with the current epoch, each axis accessor
  returns the result of the series evaluator for its table plus the fixed linear
  correction in the normalized parameter \<open>X\<close> of the current epoch:
  \<open>x = series_x + 9.922274 + 0.154154 * X\<close>, \<open>y = series_y + 10.016090 + 0.064073 * X\<close>
  and \<open>z = series_z - 3.947474 - 0.042746 * X\<close>.
\<close>

theorem axis_accessors_linear_correction:
  assumes "consistent T self"
  shows "\<exists>sx sy sz.
     fst (calc (Array (DataX T)) self) = Inr sx \<and>
     fst (calc (Array (DataY T)) self) = Inr sy \<and>
     fst (calc (Array (DataZ T)) self) = Inr sz \<and>
     fst (get_x T self) =
       Inr (axisValue sx 9.922274 0.154154 (normalize_time (JDE (private_jdate self)))) \<and>
     fst (get_y T self) =
       Inr (axisValue sy 10.016090 0.064073 (normalize_time (JDE (private_jdate self)))) \<and>
     fst (get_z T self) =
       Inr (axisValue sz (- 3.947474) (- 0.042746) (normalize_time (JDE (private_jdate self))))"
proof -
  have X: "X_consistent self" using assms by (simp add: consistent_def)
  show ?thesis
    using get_x_value [OF assms] get_y_value [OF assms] get_z_value [OF assms]
    by (simp add: calc_Array_fst [OF X] epoch_x_def epoch_y_def epoch_z_def)
qed

theorem axis_accessors_linear_correction_witness:
  "consistent
     \<lparr>DataX = [[(3, 0, pi / 2)], [(5, 0, pi / 2)], [(7, 0, pi / 2)]],
      DataY = [[(1, 0, pi / 2)], [], []], DataZ = [[], [(2, 0, pi / 2)], []]\<rparr>
     (constructor \<lparr>JDE = 2811150.5, JDEC = 0\<rparr>) \<and>
   fst (get_x
     \<lparr>DataX = [[(3, 0, pi / 2)], [(5, 0, pi / 2)], [(7, 0, pi / 2)]],
      DataY = [[(1, 0, pi / 2)], [], []], DataZ = [[], [(2, 0, pi / 2)], []]\<rparr>
     (constructor \<lparr>JDE = 2811150.5, JDEC = 0\<rparr>)) = Inr (Num 25.076428) \<and>
   fst (get_y
     \<lparr>DataX = [[(3, 0, pi / 2)], [(5, 0, pi / 2)], [(7, 0, pi / 2)]],
      DataY = [[(1, 0, pi / 2)], [], []], DataZ = [[], [(2, 0, pi / 2)], []]\<rparr>
     (constructor \<lparr>JDE = 2811150.5, JDEC = 0\<rparr>)) = Inr (Num 11.080163) \<and>
   fst (get_z
     \<lparr>DataX = [[(3, 0, pi / 2)], [(5, 0, pi / 2)], [(7, 0, pi / 2)]],
      DataY = [[(1, 0, pi / 2)], [], []], DataZ = [[], [(2, 0, pi / 2)], []]\<rparr>
     (constructor \<lparr>JDE = 2811150.5, JDEC = 0\<rparr>)) = Inr (Num (- 1.99022))"
proof -
  let ?T = "\<lparr>DataX = [[(3, 0, pi / 2)], [(5, 0, pi / 2)], [(7, 0, pi / 2)]],
      DataY = [[(1, 0, pi / 2)], [], []], DataZ = [[], [(2, 0, pi / 2)], []]\<rparr>"
  let ?s = "constructor \<lparr>JDE = 2811150.5, JDEC = 0\<rparr>"
  have c: "consistent ?T ?s"
    by (simp add: consistent_def X_consistent_def cached_ok_def constructor_def cache_new_def)
  have X: "X_consistent ?s" using c by (simp add: consistent_def)
  have n: "normalize_time (JDE (private_jdate ?s)) = 1"
    by (simp add: normalize_time_def constructor_def)
  have sv: "serie_value (private_jdate ?s) (DataX ?T) = Num 15"
    "serie_value (private_jdate ?s) (DataY ?T) = Num 1"
    "serie_value (private_jdate ?s) (DataZ ?T) = Num 2"
    by (simp_all add: serie_value_def normalize_time_def constructor_def js_index_def)
  show ?thesis
    using c axis_accessors_linear_correction [OF c] n sv
      calc_Array_fst [OF X, of "DataX ?T"] calc_Array_fst [OF X, of "DataY ?T"]
      calc_Array_fst [OF X, of "DataZ ?T"]
    by simp
qed

text \<open>
  C7. Two consecutive reads of the same axis accessor return the same value, and the
  second read leaves the engine as the first one left it: the cache is not written and
  the evaluator is not invoked again. Over any sequence of reads, every invocation of
  the evaluator fills exactly one axis that was missing from the cache, so between two
  changes of epoch the evaluator runs at most once per axis: at most three times after
  the engine is constructed.
\<close>

theorem axis_reads_memoized:
  "get_x T (snd (get_x T self)) = (fst (get_x T self), snd (get_x T self)) \<and>
   get_y T (snd (get_y T self)) = (fst (get_y T self), snd (get_y T self)) \<and>
   get_z T (snd (get_z T self)) = (fst (get_z T self), snd (get_z T self)) \<and>
   calc_calls (reads T rs self) + missing (reads T rs self) = calc_calls self + missing self \<and>
   calc_calls (reads T rs (constructor j)) \<le> 3"
proof -
  have "calc_calls (reads T rs (constructor j)) + missing (reads T rs (constructor j)) = 3"
    by (simp add: reads_budget) (simp add: constructor_def cache_new_def missing_def cache_has_def)
  then have "calc_calls (reads T rs (constructor j)) \<le> 3" by linarith
  then show ?thesis
    using read_twice [of T Read_x self] read_twice [of T Read_y self] read_twice [of T Read_z self]
    by (simp add: reads_budget)
qed

theorem axis_reads_memoized_witness:
  "fst (get_x \<lparr>DataX = [[(3, 0, pi / 2)], [], []], DataY = [[], [], []], DataZ = [[], [], []]\<rparr>
     (snd (get_x \<lparr>DataX = [[(3, 0, pi / 2)], [], []], DataY = [[], [], []], DataZ = [[], [], []]\<rparr>
        (constructor \<lparr>JDE = 2811150.5, JDEC = 0\<rparr>)))) = Inr (Num 13.076428) \<and>
   calc_calls (reads \<lparr>DataX = [[(3, 0, pi / 2)], [], []], DataY = [[], [], []], DataZ = [[], [], []]\<rparr>
     [Read_x, Read_x, Read_y, Read_x, Read_y] (constructor \<lparr>JDE = 2811150.5, JDEC = 0\<rparr>)) = 2"
proof -
  let ?T = "\<lparr>DataX = [[(3, 0, pi / 2)], [], []], DataY = [[], [], []], DataZ = [[], [], []]\<rparr>"
  let ?s = "constructor \<lparr>JDE = 2811150.5, JDEC = 0\<rparr>"
  let ?rs = "[Read_x, Read_x, Read_y, Read_x, Read_y]"
  have x: "fst (get_x ?T ?s) = Inr (Num 13.076428)"
    using get_x_value [OF constructor_consistent, of ?T "\<lparr>JDE = 2811150.5, JDEC = 0\<rparr>"]
    by (simp add: epoch_x_def serie_value_def normalize_time_def constructor_def js_index_def)
  have m: "missing ?s = 3"
    by (simp add: missing_def constructor_def cache_new_def cache_has_def)
  have h: "cache_has (cache (reads ?T ?rs ?s)) ''x''" "cache_has (cache (reads ?T ?rs ?s)) ''y''"
    "\<not> cache_has (cache (reads ?T ?rs ?s)) ''z''"
    by (simp_all add: get_x_axis_get get_y_axis_get axis_get_has axis_get_has_other)
      (simp add: constructor_def cache_new_def cache_has_def)
  have m': "missing (reads ?T ?rs ?s) = 1"
    using h by (simp add: missing_def)
  have c0: "calc_calls ?s = 0" by (simp add: constructor_def)
  note w = axis_reads_memoized [of ?T ?s ?rs "\<lparr>JDE = 2811150.5, JDEC = 0\<rparr>"]
  from w have "get_x ?T (snd (get_x ?T ?s)) = (fst (get_x ?T ?s), snd (get_x ?T ?s))"
    by (rule conjunct1)
  then have 1: "fst (get_x ?T (snd (get_x ?T ?s))) = Inr (Num 13.076428)"
    by (simp only: fst_conv x)
  from w have "calc_calls (reads ?T ?rs ?s) + missing (reads ?T ?rs ?s) = calc_calls ?s + missing ?s"
    by blast
  then have "calc_calls (reads ?T ?rs ?s) + 1 = 0 + 3"
    by (simp only: m m' c0)
  then have 2: "calc_calls (reads ?T ?rs ?s) = 2" by linarith
  from 1 2 show ?thesis by (rule conjI)
qed

section \<open>The normalized time parameter\<close>

text \<open>
  C3. The normalized time parameter of an epoch with Julian Ephemeris Day \<open>JDE\<close> is
  \<open>X = -1 + 2 * (JDE - 626150.5) / 2185000\<close>: this is what reading \<open>X\<close> returns on a
  newly constructed engine, and in every state whose memoized \<open>X\<close> belongs to the
  current epoch. At the endpoints of the window the value is exact in double
  arithmetic: the endpoints and the constants of the formula are doubles, and with
  every operation rounded to the double format the formula gives \<open>-1\<close> at
  \<open>626150.5\<close> and \<open>1\<close> at \<open>2811150.5\<close>.
\<close>

theorem normalization_formula_and_endpoints:
  "(X_consistent self \<longrightarrow>
      fst (private_X self) = Num (- 1 + 2 * (JDE (private_jdate self) - 626150.5) / 2185000)) \<and>
   fst (private_X (constructor \<lparr>JDE = jde, JDEC = t\<rparr>)) =
      Num (- 1 + 2 * (jde - 626150.5) / 2185000) \<and>
   fst (private_X (constructor \<lparr>JDE = 626150.5, JDEC = t\<rparr>)) = Num (- 1) \<and>
   fst (private_X (constructor \<lparr>JDE = 2811150.5, JDEC = t\<rparr>)) = Num 1 \<and>
   fl 626150.5 = 626150.5 \<and> fl 2811150.5 = 2811150.5 \<and> fl 2185000 = 2185000 \<and>
   X_double 626150.5 = - 1 \<and> X_double 2811150.5 = 1"
proof -
  have a: "fl 626150.5 = 626150.5"
    using fl_exact [of "626150.5" 1252301 "- 1"] by (simp add: powr_minus)
  have b: "fl 2811150.5 = 2811150.5"
    using fl_exact [of "2811150.5" 5622301 "- 1"] by (simp add: powr_minus)
  have c: "fl 2185000 = 2185000" using fl_int [of 2185000] by simp
  have d: "fst (private_X (constructor \<lparr>JDE = jde, JDEC = t\<rparr>)) =
      Num (- 1 + 2 * (jde - 626150.5) / 2185000)" for jde
    by (simp add: private_X_def constructor_def cache_new_def cache_has_def cache_get_def cache_set_def)
  show ?thesis
    using a b c d [of jde] d [of "626150.5"] d [of "2811150.5"] X_double_lo X_double_hi
      private_X_fst [of self]
    by (simp add: normalize_time_def)
qed

theorem normalization_formula_and_endpoints_witness:
  "X_consistent (snd (private_X (constructor \<lparr>JDE = 2446896, JDEC = 0\<rparr>))) \<and>
   fst (private_X (snd (private_X (constructor \<lparr>JDE = 2446896, JDEC = 0\<rparr>)))) =
     Num (1456491 / 2185000)"
proof -
  let ?s = "snd (private_X (constructor \<lparr>JDE = 2446896, JDEC = 0\<rparr>))"
  have c: "X_consistent ?s"
    by (rule X_consistent_private_X)
      (simp add: X_consistent_def cached_ok_def constructor_def cache_new_def)
  show ?thesis
    using c normalization_formula_and_endpoints [of ?s 0 0]
    by (simp add: constructor_def)
qed

section \<open>The epoch\<close>

text \<open>
  C9. If the setter of \<open>obTime\<close> is called with an argument that fails the check, it
  throws before any mutation: the engine, with its time reference and every cached
  value, is exactly as before the call, so every later read behaves as if the call had
  not been made.
\<close>

theorem obTime_setter_failure_no_mutation:
  assumes "\<not> instanceof_JDateRepository v"
  shows "set_obTime v self =
           (Inl (Error ''The param jdr should be a instance of JDateRepository.''), self) \<and>
         get_obTime (snd (set_obTime v self)) = get_obTime self \<and>
         read T r (snd (set_obTime v self)) = read T r self \<and>
         get_rc T (snd (set_obTime v self)) = get_rc T self"
  using assms by (simp add: set_obTime_reject)

theorem obTime_setter_failure_no_mutation_witness:
  "\<not> instanceof_JDateRepository (Object [(''JDE'', Num 2451545), (''JDEC'', Num 0)]) \<and>
   set_obTime (Object [(''JDE'', Num 2451545), (''JDEC'', Num 0)])
       (constructor \<lparr>JDE = 2446896, JDEC = 0\<rparr>) =
     (Inl (Error ''The param jdr should be a instance of JDateRepository.''),
      constructor \<lparr>JDE = 2446896, JDEC = 0\<rparr>)"
  using obTime_setter_failure_no_mutation
    [of "Object [(''JDE'', Num 2451545), (''JDEC'', Num 0)]"
        "constructor \<lparr>JDE = 2446896, JDEC = 0\<rparr>"]
  by simp

text \<open>
  The check of the setter is \<open>instanceof JDateRepository\<close>, which is narrower than
  the capability contract: a plain object that exposes a numeric \<open>JDE\<close> and a numeric
  \<open>JDEC\<close> satisfies the contract, and the setter rejects it and keeps the epoch it
  had.
\<close>

theorem obTime_setter_rejects_exposing_object:
  "exposes_time_reference (Object [(''JDE'', Num 2451545), (''JDEC'', Num 0)]) \<and>
   fst (set_obTime (Object [(''JDE'', Num 2451545), (''JDEC'', Num 0)])
          (constructor \<lparr>JDE = 2446896, JDEC = - 0.13\<rparr>)) =
     Inl (Error ''The param jdr should be a instance of JDateRepository.'') \<and>
   get_obTime (snd (set_obTime (Object [(''JDE'', Num 2451545), (''JDEC'', Num 0)])
          (constructor \<lparr>JDE = 2446896, JDEC = - 0.13\<rparr>))) =
     \<lparr>JDE = 2446896, JDEC = - 0.13\<rparr>"
  by (simp add: js_property_def set_obTime_reject get_obTime_def constructor_def)

text \<open>
  C5, amended. The setter of \<open>obTime\<close> fails with the invalid-argument error for every
  argument that is not an instance of \<open>JDateRepository\<close>, which includes every
  argument that does not satisfy the capability contract. For every instance of
  \<open>JDateRepository\<close> the setter succeeds, the argument is the current epoch, and the
  cache holds no entry; every later read of \<open>X\<close>, \<open>x\<close>, \<open>y\<close> or \<open>z\<close>, after any
  sequence of reads, returns the value of the new epoch, which is the value a newly
  constructed engine for that epoch returns.
\<close>

theorem obTime_setter_contract:
  "(\<not> instanceof_JDateRepository v \<longrightarrow>
      fst (set_obTime v self) =
        Inl (Error ''The param jdr should be a instance of JDateRepository.'')) \<and>
   fst (set_obTime (JDateRepository j) self) = Inr () \<and>
   get_obTime (snd (set_obTime (JDateRepository j) self)) = j \<and>
   \<not> cache_has (cache (snd (set_obTime (JDateRepository j) self))) k \<and>
   fst (read T r (reads T rs (snd (set_obTime (JDateRepository j) self)))) =
      Inr (epoch_value T j r) \<and>
   fst (read T r (constructor j)) = Inr (epoch_value T j r) \<and>
   (\<not> exposes_time_reference v \<longrightarrow>
      fst (set_obTime v self) =
        Inl (Error ''The param jdr should be a instance of JDateRepository.''))"
proof -
  let ?s = "snd (set_obTime (JDateRepository j) self)"
  have c: "consistent T ?s"
    by (simp add: set_obTime_accept consistent_empty cache_on_def)
  have "fst (read T r (reads T rs ?s)) = Inr (epoch_value T j r)"
  proof -
    have "consistent T (reads T rs ?s)" using c by (rule reads_consistent)
    from read_value [OF this] show ?thesis by (simp add: set_obTime_accept)
  qed
  moreover have "fst (read T r (constructor j)) = Inr (epoch_value T j r)"
    using read_value [OF constructor_consistent] by (simp add: constructor_def)
  moreover have "\<not> instanceof_JDateRepository v" if "\<not> exposes_time_reference v"
    using that instance_exposes_time_reference by blast
  ultimately show ?thesis
    by (simp add: set_obTime_reject set_obTime_accept get_obTime_def cache_on_def cache_has_def)
qed

theorem obTime_setter_contract_witness:
  "\<not> instanceof_JDateRepository (Prim Undefined) \<and>
   \<not> exposes_time_reference (Prim Undefined) \<and>
   fst (set_obTime (Prim Undefined) (constructor \<lparr>JDE = 626150.5, JDEC = 0\<rparr>)) =
     Inl (Error ''The param jdr should be a instance of JDateRepository.'') \<and>
   fst (read \<lparr>DataX = [[(3, 0, pi / 2)], [(5, 0, pi / 2)], [(7, 0, pi / 2)]],
              DataY = [[], [], []], DataZ = [[], [], []]\<rparr> Read_x
     (reads \<lparr>DataX = [[(3, 0, pi / 2)], [(5, 0, pi / 2)], [(7, 0, pi / 2)]],
              DataY = [[], [], []], DataZ = [[], [], []]\<rparr> [Read_y, Read_X]
        (snd (set_obTime (JDateRepository \<lparr>JDE = 2811150.5, JDEC = 0\<rparr>)
           (snd (get_x \<lparr>DataX = [[(3, 0, pi / 2)], [(5, 0, pi / 2)], [(7, 0, pi / 2)]],
                        DataY = [[], [], []], DataZ = [[], [], []]\<rparr>
              (constructor \<lparr>JDE = 626150.5, JDEC = 0\<rparr>))))))) = Inr (Num 25.076428)"
proof -
  let ?T = "\<lparr>DataX = [[(3, 0, pi / 2)], [(5, 0, pi / 2)], [(7, 0, pi / 2)]],
              DataY = [[], [], []], DataZ = [[], [], []]\<rparr>"
  let ?j = "\<lparr>JDE = 2811150.5, JDEC = 0\<rparr>"
  let ?s0 = "constructor \<lparr>JDE = 626150.5, JDEC = 0\<rparr>"
  have e: "epoch_value ?T ?j Read_x = Num 25.076428"
    by (simp add: epoch_x_def serie_value_def normalize_time_def js_index_def)
  have n: "\<not> instanceof_JDateRepository (Prim Undefined)" by simp
  from obTime_setter_contract [of "Prim Undefined" ?s0] n
  have 1: "fst (set_obTime (Prim Undefined) ?s0) =
     Inl (Error ''The param jdr should be a instance of JDateRepository.'')"
    by blast
  from obTime_setter_contract [of _ "snd (get_x ?T ?s0)" ?j _ ?T Read_x "[Read_y, Read_X]"]
  have "fst (read ?T Read_x (reads ?T [Read_y, Read_X]
          (snd (set_obTime (JDateRepository ?j) (snd (get_x ?T ?s0)))))) =
        Inr (epoch_value ?T ?j Read_x)"
    by blast
  then have 2: "fst (read ?T Read_x (reads ?T [Read_y, Read_X]
          (snd (set_obTime (JDateRepository ?j) (snd (get_x ?T ?s0)))))) = Inr (Num 25.076428)"
    by (simp only: e)
  have n': "\<not> exposes_time_reference (Prim Undefined)" by simp
  from n n' 1 2 show ?thesis by (intro conjI)
qed

section \<open>The coordinate vector\<close>




end
